theory Spec2Isabelle
  imports Complex_Main "HOL-Library.Sublist" "HOL-Library.Word"
begin

section \<open>JavaScript values, strings and the runtime\<close>

text \<open>
  The two components verified here are \<open>AdminMovies\<close> (list, add, delete, delete all) and
  \<open>UsersChart\<close> (list of registered users). Both are React function components whose event
  handlers are \<open>async\<close> functions: they call \<open>fetch\<close>, inspect the response and call state
  setters. A handler is modelled as a function from the component state at the moment of the
  call to the state after the handler's promise has settled; every setter writes a plain value,
  so the final state is the sequential composition of the writes.

  A string is the list of its UTF-16 code units, as in JavaScript: \<open>length\<close>, \<open>substring\<close>,
  \<open>includes\<close> and \<open>trim\<close> work on code units. \<open>lit\<close> is a string literal of the source, all of
  which are ASCII but for one em dash.
\<close>

type_synonym code_unit = "16 word"

type_synonym jsstring = "code_unit list"

definition unit_of_char :: "char \<Rightarrow> code_unit" where
  "unit_of_char c = of_nat (of_char c)"

definition lit :: "string \<Rightarrow> jsstring" where
  "lit s = map unit_of_char s"

datatype jsnum = NaN | PosInfinity | NegInfinity | Finite rat

datatype json =
    JNull
  | JBool bool
  | JNum jsnum
  | JStr jsstring
  | JArr "json list"
  | JObj "(jsstring \<times> json) list"

text \<open>A value read with \<open>m.id\<close>: \<open>None\<close> is \<open>undefined\<close>.\<close>

type_synonym jsval = "json option"

text \<open>
  A promise, once settled: rejected with an \<open>Error\<close> whose \<open>message\<close> is the string, or
  fulfilled with a value.
\<close>

datatype 'a promise = Rejected jsstring | Fulfilled 'a

text \<open>The two \<open>TypeError\<close>s the handlers can provoke; the engine chooses their messages.\<close>

datatype js_fault = PropertyOfNull | NotAFunction

text \<open>
  A response, as far as the handlers read it: \<open>res.status\<close>, the header
  \<open>res.headers.get("content-type")\<close> (\<open>None\<close> is \<open>null\<close>), the body as \<open>res.text()\<close> gives it
  and the outcome of \<open>res.json()\<close>, which rejects when the body is not JSON. A handler reads
  the body of a response once, as text or as JSON; reading it as text is taken to succeed.
\<close>

record response =
  status :: nat
  content_type :: "jsstring option"
  body_text :: jsstring
  body_json :: "json promise"

text \<open>\<open>res.ok\<close>: the status is in the range 200 to 299.\<close>

definition ok :: "response \<Rightarrow> bool" where
  "ok res = (200 \<le> status res \<and> status res \<le> 299)"

text \<open>A request, by method and URL; a \<open>POST\<close> carries the object that is serialised as body.\<close>

datatype request = GET jsstring | POST jsstring json | DELETE jsstring

text \<open>
  Everything outside the component. \<open>respond k req\<close> is how the \<open>k\<close>-th request issued by
  the component settles: \<open>fetch\<close> rejects on a network failure and is fulfilled with a response
  otherwise, whatever its status. \<open>settle_time k\<close> is the moment at which that happens (it only
  orders the requests that are in flight together). \<open>fault_message\<close> is the engine's wording of
  a \<open>TypeError\<close>, \<open>Number\<close> is the conversion of a string to a number and \<open>ToString\<close> the
  conversion of a value inside a template literal. \<open>ToLowerCase\<close> is the engine's
  \<open>toLowerCase\<close>, which the model asks only about strings with a code unit above \<open>0xFF\<close>.
\<close>

record env =
  respond :: "nat \<Rightarrow> request \<Rightarrow> response promise"
  settle_time :: "nat \<Rightarrow> nat"
  fault_message :: "js_fault \<Rightarrow> jsstring"
  Number :: "jsstring \<Rightarrow> jsnum"
  ToString :: "jsval \<Rightarrow> jsstring"
  ToLowerCase :: "jsstring \<Rightarrow> jsstring"

subsection \<open>String functions\<close>

definition digit_char :: "nat \<Rightarrow> char" where
  "digit_char d = ''0123456789'' ! d"

text \<open>\<open>${res.status}\<close>: a status is a non-negative integer, printed in decimal.\<close>

fun decimal :: "nat \<Rightarrow> string" where
  "decimal n = (if n < 10 then [digit_char n] else decimal (n div 10) @ [digit_char (n mod 10)])"

declare decimal.simps [simp del]

text \<open>
  The white space and the line terminators of ECMAScript, which \<open>trim\<close> strips: TAB, LF, VT,
  FF, CR, SPACE, NO-BREAK SPACE, OGHAM SPACE MARK, the spaces \<open>U+2000\<close> to \<open>U+200A\<close>, LINE
  SEPARATOR, PARAGRAPH SEPARATOR, NARROW NO-BREAK SPACE, MEDIUM MATHEMATICAL SPACE, IDEOGRAPHIC
  SPACE and ZERO WIDTH NO-BREAK SPACE. Each is one code unit.
\<close>

definition is_space :: "code_unit \<Rightarrow> bool" where
  "is_space c =
     (c \<in> set [0x0009, 0x000A, 0x000B, 0x000C, 0x000D, 0x0020, 0x00A0, 0x1680,
        0x2000, 0x2001, 0x2002, 0x2003, 0x2004, 0x2005, 0x2006, 0x2007, 0x2008, 0x2009, 0x200A,
        0x2028, 0x2029, 0x202F, 0x205F, 0x3000, 0xFEFF])"

text \<open>\<open>s.trim()\<close>\<close>

definition trim :: "jsstring \<Rightarrow> jsstring" where
  "trim s = rev (dropWhile is_space (rev (dropWhile is_space s)))"

text \<open>
  The lower case of a code unit up to \<open>0xFF\<close>: the letters \<open>A\<close> to \<open>Z\<close> and the letters
  \<open>U+00C0\<close> to \<open>U+00DE\<close> but for the multiplication sign \<open>U+00D7\<close> have their lower case 32
  places further on; the other characters of that range have none.
\<close>

definition lower_unit :: "code_unit \<Rightarrow> code_unit" where
  "lower_unit c =
     (if (0x41 \<le> c \<and> c \<le> 0x5A) \<or> (0xC0 \<le> c \<and> c \<le> 0xDE \<and> c \<noteq> 0xD7)
      then c + 0x20 else c)"

text \<open>
  \<open>s.toLowerCase()\<close>. On a string of code units up to \<open>0xFF\<close> the conversion maps each
  character on its own and is written out. The value of a header is such a string:
  \<open>headers.get\<close> returns the bytes of the header, one code unit for each. For any other
  string the result is the engine's.
\<close>

definition toLowerCase :: "env \<Rightarrow> jsstring \<Rightarrow> jsstring" where
  "toLowerCase e s = (if list_all (\<lambda>c. c \<le> 0xFF) s then map lower_unit s else ToLowerCase e s)"

text \<open>\<open>hay.includes(needle)\<close>\<close>

fun js_includes :: "jsstring \<Rightarrow> jsstring \<Rightarrow> bool" where
  "js_includes [] needle = (needle = [])"
| "js_includes (c # cs) needle = (prefix needle (c # cs) \<or> js_includes cs needle)"

declare js_includes.simps [simp del]

text \<open>\<open>s.substring(0, n)\<close>\<close>

definition substring0 :: "nat \<Rightarrow> jsstring \<Rightarrow> jsstring" where
  "substring0 n s = take n s"

text \<open>The em dash of the users list's message, \<open>U+2014\<close>.\<close>

definition em_dash :: jsstring where
  "em_dash = [0x2014]"

subsection \<open>Property access\<close>

text \<open>
  \<open>v.k\<close> for a parsed JSON value \<open>v\<close> other than \<open>null\<close> (on \<open>null\<close> the access throws a
  \<open>TypeError\<close>, which the caller models): the member of an object (whose list holds each key
  once), \<open>undefined\<close> on anything else.
\<close>

fun get_prop :: "json \<Rightarrow> jsstring \<Rightarrow> jsval" where
  "get_prop (JObj kvs) k = map_of kvs k"
| "get_prop _ k = None"

section \<open>AdminMovies\<close>

subsection \<open>The form and its payload\<close>

record form_draft =
  title :: jsstring
  director :: jsstring
  genre :: jsstring
  leadActor1 :: jsstring
  leadActor2 :: jsstring
  releaseDate :: jsstring
  salesMillions :: jsstring
  posterUrl :: jsstring

definition SEND_SNAKE_CASE :: bool where
  "SEND_SNAKE_CASE = False"

text \<open>\<open>s || null\<close> for a string \<open>s\<close>\<close>

definition or_null :: "jsstring \<Rightarrow> json" where
  "or_null s = (if s = [] then JNull else JStr s)"

text \<open>\<open>payload.k\<close> as a member of a new object literal: every key read is there.\<close>

definition field :: "json \<Rightarrow> jsstring \<Rightarrow> json" where
  "field payload k = (case get_prop payload k of Some v \<Rightarrow> v | None \<Rightarrow> JNull)"

definition toPayload :: "(jsstring \<Rightarrow> jsnum) \<Rightarrow> form_draft \<Rightarrow> json" where
  "toPayload num f =
     (let payload = JObj
        [(lit ''title'', or_null (title f)),
         (lit ''director'', or_null (director f)),
         (lit ''genre'', or_null (genre f)),
         (lit ''leadActor1'', or_null (leadActor1 f)),
         (lit ''leadActor2'', or_null (leadActor2 f)),
         (lit ''releaseDate'', or_null (releaseDate f)),
         (lit ''salesMillions'',
            if salesMillions f = [] then JNull else JNum (num (salesMillions f))),
         (lit ''posterUrl'', or_null (posterUrl f))]
      in
      if \<not> SEND_SNAKE_CASE then payload
      else JObj
        [(lit ''title'', field payload (lit ''title'')),
         (lit ''director'', field payload (lit ''director'')),
         (lit ''genre'', field payload (lit ''genre'')),
         (lit ''lead_actor_1'', field payload (lit ''leadActor1'')),
         (lit ''lead_actor_2'', field payload (lit ''leadActor2'')),
         (lit ''release_date'', field payload (lit ''releaseDate'')),
         (lit ''sales_millions'', field payload (lit ''salesMillions'')),
         (lit ''poster_url'', field payload (lit ''posterUrl''))])"

definition emptyForm :: form_draft where
  "emptyForm =
     \<lparr>title = [], director = [], genre = [], leadActor1 = [], leadActor2 = [],
      releaseDate = [], salesMillions = [], posterUrl = []\<rparr>"

subsection \<open>The component state\<close>

text \<open>
  The four \<open>useState\<close> cells, and \<open>sent\<close>: the requests the component has issued so far, in
  the order of the \<open>fetch\<close> calls. \<open>movies\<close> holds whatever \<open>res.json()\<close> gave, an array or not.
\<close>

record admin_state =
  movies :: json
  form :: form_draft
  loading :: bool
  error :: jsstring
  sent :: "request list"

definition init_admin :: admin_state where
  "init_admin = \<lparr>movies = JArr [], form = emptyForm, loading = False, error = [], sent = []\<rparr>"

text \<open>\<open>fetch(req)\<close>: the request is issued, and settles as the environment says.\<close>

definition fetch :: "env \<Rightarrow> request \<Rightarrow> admin_state \<Rightarrow> response promise \<times> admin_state" where
  "fetch e req s = (respond e (length (sent s)) req, s\<lparr>sent := sent s @ [req]\<rparr>)"

text \<open>The \<open>catch\<close> and \<open>finally\<close> blocks of \<open>load\<close>.\<close>

definition load_catch :: "jsstring \<Rightarrow> admin_state \<Rightarrow> admin_state" where
  "load_catch msg s = s\<lparr>error := msg, movies := JArr [], loading := False\<rparr>"

definition load :: "env \<Rightarrow> admin_state \<Rightarrow> admin_state" where
  "load e s =
     (let s1 = s\<lparr>loading := True, error := []\<rparr>;
          (r, s2) = fetch e (GET (lit ''/api/movies'')) s1
      in case r of
           Rejected msg \<Rightarrow> load_catch msg s2
         | Fulfilled res \<Rightarrow>
             if \<not> ok res then load_catch (lit ''GET /api/movies failed: '' @ lit (decimal (status res))) s2
             else (case body_json res of
                     Rejected msg \<Rightarrow> load_catch msg s2
                   | Fulfilled data \<Rightarrow> s2\<lparr>movies := data, loading := False\<rparr>))"

text \<open>The \<open>catch\<close> and \<open>finally\<close> blocks shared by \<open>addMovie\<close>, \<open>deleteOne\<close> and \<open>deleteAll\<close>.\<close>

definition op_catch :: "jsstring \<Rightarrow> admin_state \<Rightarrow> admin_state" where
  "op_catch msg s = s\<lparr>error := msg, loading := False\<rparr>"

definition addMovie :: "env \<Rightarrow> admin_state \<Rightarrow> admin_state" where
  "addMovie e s =
     (let s1 = s\<lparr>loading := True, error := []\<rparr> in
      if trim (title (form s)) = [] then op_catch (lit ''Title is required'') s1
      else
        let payload = toPayload (Number e) (form s);
            (r, s2) = fetch e (POST (lit ''/api/admin/movies'') payload) s1
        in case r of
             Rejected msg \<Rightarrow> op_catch msg s2
           | Fulfilled res \<Rightarrow>
               if \<not> ok res
               then op_catch (lit ''POST failed '' @ lit (decimal (status res)) @ lit '': '' @ body_text res) s2
               else (load e (s2\<lparr>form := emptyForm\<rparr>))\<lparr>loading := False\<rparr>)"

text \<open>\<open>confirmed\<close> is the user's answer to the \<open>confirm\<close> dialog.\<close>

definition deleteOne :: "env \<Rightarrow> bool \<Rightarrow> jsval \<Rightarrow> admin_state \<Rightarrow> admin_state" where
  "deleteOne e confirmed ident s =
     (if \<not> confirmed then s
      else
        let s1 = s\<lparr>loading := True, error := []\<rparr>;
            (r, s2) = fetch e (DELETE (lit ''/api/admin/movies/'' @ ToString e ident)) s1
        in case r of
             Rejected msg \<Rightarrow> op_catch msg s2
           | Fulfilled res \<Rightarrow>
               if \<not> ok res
               then op_catch
                 (lit ''DELETE '' @ ToString e ident @ lit '' failed: ''
                   @ lit (decimal (status res))) s2
               else (load e s2)\<lparr>loading := False\<rparr>)"

text \<open>The request of \<open>fetch(`/api/admin/movies/${m.id}`, { method: "DELETE" })\<close>.\<close>

definition delete_request :: "env \<Rightarrow> json \<Rightarrow> request" where
  "delete_request e m = DELETE (lit ''/api/admin/movies/'' @ ToString e (get_prop m (lit ''id'')))"

text \<open>
  \<open>list.map((m) => fetch(...))\<close>: the callback runs on the elements in order, and each call
  issues its request before the next element is looked at. A \<open>null\<close> element throws out of
  \<open>map\<close>; the requests issued before it stay issued. The result pairs each promise with the
  index of its request.
\<close>

fun fire_deletes ::
  "env \<Rightarrow> json list \<Rightarrow> admin_state \<Rightarrow> (nat \<times> response promise) list promise \<times> admin_state"
where
  "fire_deletes e [] s = (Fulfilled [], s)"
| "fire_deletes e (m # ms) s =
     (if m = JNull then (Rejected (fault_message e PropertyOfNull), s)
      else
        let k = length (sent s);
            (r, s') = fetch e (delete_request e m) s
        in (case fire_deletes e ms s' of
              (Rejected msg, t) \<Rightarrow> (Rejected msg, t)
            | (Fulfilled ps, t) \<Rightarrow> (Fulfilled ((k, r) # ps), t)))"

text \<open>
  \<open>Promise.all\<close>: rejected with the reason of the promise that rejects first, fulfilled with
  all the values when none rejects. \<open>t k\<close> is the time at which the promise of request \<open>k\<close>
  settles; of two rejections at the same time the one issued earlier counts as the first.
\<close>

fun first_rejection ::
  "(nat \<Rightarrow> nat) \<Rightarrow> (nat \<times> 'a promise) list \<Rightarrow> (nat \<times> jsstring) option"
where
  "first_rejection t [] = None"
| "first_rejection t ((k, Fulfilled v) # ps) = first_rejection t ps"
| "first_rejection t ((k, Rejected msg) # ps) =
     (case first_rejection t ps of
        None \<Rightarrow> Some (k, msg)
      | Some (k', msg') \<Rightarrow> if t k' < t k then Some (k', msg') else Some (k, msg))"

fun values_of :: "(nat \<times> 'a promise) list \<Rightarrow> 'a list" where
  "values_of [] = []"
| "values_of ((k, Fulfilled v) # ps) = v # values_of ps"
| "values_of ((k, Rejected msg) # ps) = values_of ps"

definition promise_all :: "(nat \<Rightarrow> nat) \<Rightarrow> (nat \<times> 'a promise) list \<Rightarrow> 'a list promise" where
  "promise_all t ps =
     (case first_rejection t ps of
        Some (k, msg) \<Rightarrow> Rejected msg
      | None \<Rightarrow> Fulfilled (values_of ps))"

definition deleteAll :: "env \<Rightarrow> bool \<Rightarrow> admin_state \<Rightarrow> admin_state" where
  "deleteAll e confirmed s =
     (if \<not> confirmed then s
      else
        let s1 = s\<lparr>loading := True, error := []\<rparr>;
            (r, s2) = fetch e (GET (lit ''/api/movies'')) s1
        in case r of
             Rejected msg \<Rightarrow> op_catch msg s2
           | Fulfilled res \<Rightarrow>
               if \<not> ok res then op_catch (lit ''Failed to load movies before deleting'') s2
               else (case body_json res of
                       Rejected msg \<Rightarrow> op_catch msg s2
                     | Fulfilled JNull \<Rightarrow> op_catch (fault_message e PropertyOfNull) s2
                     | Fulfilled (JArr ms) \<Rightarrow>
                         (case fire_deletes e ms s2 of
                            (Rejected msg, s3) \<Rightarrow> op_catch msg s3
                          | (Fulfilled ps, s3) \<Rightarrow>
                              (case promise_all (settle_time e) ps of
                                 Rejected msg \<Rightarrow> op_catch msg s3
                               | Fulfilled rs \<Rightarrow> (load e s3)\<lparr>loading := False\<rparr>))
                     | Fulfilled _ \<Rightarrow> op_catch (fault_message e NotAFunction) s2))"

section \<open>UsersChart\<close>

text \<open>\<open>users\<close> is \<open>null\<close> (\<open>None\<close>) until a load has finished, an array afterwards.\<close>

record users_state =
  users :: "json list option"
  users_loading :: bool
  users_error :: jsstring
  users_sent :: "request list"

definition endpoint :: jsstring where
  "endpoint = lit ''/users''"

text \<open>The \<open>catch\<close> and \<open>finally\<close> blocks of the users list's \<open>load\<close>.\<close>

definition load_users_catch :: "jsstring \<Rightarrow> users_state \<Rightarrow> users_state" where
  "load_users_catch msg s =
     s\<lparr>users_error := (if msg = [] then (lit ''Failed to load users'') else msg),
       users := Some [], users_loading := False\<rparr>"

text \<open>\<open>(res.headers.get("content-type") || "").toLowerCase()\<close>\<close>

definition detected_type :: "env \<Rightarrow> response \<Rightarrow> jsstring" where
  "detected_type e res =
     toLowerCase e (case content_type res of None \<Rightarrow> [] | Some h \<Rightarrow> h)"

text \<open>\<open>load\<close> of \<open>UsersChart\<close>\<close>

definition load_users :: "env \<Rightarrow> users_state \<Rightarrow> users_state" where
  "load_users e s =
     (let s1 = s\<lparr>users_loading := True, users_error := [], users := None\<rparr>;
          r = respond e (length (users_sent s1)) (GET endpoint);
          s2 = s1\<lparr>users_sent := users_sent s1 @ [GET endpoint]\<rparr>
      in case r of
           Rejected msg \<Rightarrow> load_users_catch msg s2
         | Fulfilled res \<Rightarrow>
             let ct = detected_type e res in
             if \<not> ok res
             then load_users_catch
               (lit ''GET '' @ endpoint @ lit '' failed: '' @ lit (decimal (status res))
                 @ lit '' '' @ em_dash @ lit '' '' @ substring0 200 (body_text res)) s2
             else if js_includes ct (lit ''application/json'')
             then (case body_json res of
                     Rejected msg \<Rightarrow> load_users_catch msg s2
                   | Fulfilled data \<Rightarrow>
                       s2\<lparr>users := Some (case data of JArr xs \<Rightarrow> xs | _ \<Rightarrow> []),
                          users_loading := False\<rparr>)
             else load_users_catch
               (lit ''Unexpected response content-type='' @ ct @ lit ''. Body: ''
                 @ substring0 200 (body_text res)) s2)"

section \<open>Scenarios\<close>

text \<open>
  Concrete servers and states on which the theorems below are run. The engine's conversions
  agree with JavaScript on the arguments the scenarios pass: identifiers that are strings, and
  the sales figure \<open>402\<close>. No scenario has a header with a code unit above \<open>0xFF\<close>, so none
  asks the engine for a lower case.
\<close>

definition engine :: "(nat \<Rightarrow> request \<Rightarrow> response promise) \<Rightarrow> env" where
  "engine net =
     \<lparr>respond = net,
      settle_time = (\<lambda>k. k),
      fault_message =
        (\<lambda>f. case f of
           PropertyOfNull \<Rightarrow> lit ''Cannot read properties of null''
         | NotAFunction \<Rightarrow> lit ''list.map is not a function''),
      Number = (\<lambda>s. if s = lit ''402'' then Finite 402 else NaN),
      ToString =
        (\<lambda>v. case v of
           None \<Rightarrow> lit ''undefined''
         | Some JNull \<Rightarrow> lit ''null''
         | Some (JStr s) \<Rightarrow> s
         | Some _ \<Rightarrow> []),
      ToLowerCase = (\<lambda>s. s)\<rparr>"

definition movie :: "jsstring \<Rightarrow> jsstring \<Rightarrow> json" where
  "movie i t = JObj [(lit ''id'', JStr i), (lit ''title'', JStr t)]"

definition dune :: json where
  "dune = movie (lit ''m1'') (lit ''Dune'')"

definition alien :: json where
  "alien = movie (lit ''m2'') (lit ''Alien'')"

definition heat :: json where
  "heat = movie (lit ''m3'') (lit ''Heat'')"

text \<open>
  A response with a JSON body; its text is left empty, since the handlers that receive it in
  the scenarios read the parsed value only. Then a response without a body, and an error page.
\<close>

definition json_response :: "nat \<Rightarrow> json \<Rightarrow> response" where
  "json_response n v =
     \<lparr>status = n, content_type = Some (lit ''application/json''), body_text = [],
      body_json = Fulfilled v\<rparr>"

definition no_content :: response where
  "no_content =
     \<lparr>status = 204, content_type = None, body_text = [],
      body_json = Rejected (lit ''Unexpected end of JSON input'')\<rparr>"

definition html_page :: jsstring where
  "html_page = lit ''<html><body>Server Error</body></html>''"

definition html_response :: "nat \<Rightarrow> response" where
  "html_response n =
     \<lparr>status = n, content_type = Some (lit ''text/html; charset=UTF-8''), body_text = html_page,
      body_json = Rejected (lit ''Unexpected token < in JSON at position 0'')\<rparr>"

text \<open>Every request is answered with the error page and status 500.\<close>

definition net_all_500 :: "nat \<Rightarrow> request \<Rightarrow> response promise" where
  "net_all_500 k req = Fulfilled (html_response 500)"

text \<open>
  The list holds two movies. The server carries out both \<open>DELETE\<close>s; the list read
  afterwards is empty.
\<close>

definition net_delete_ok :: "nat \<Rightarrow> request \<Rightarrow> response promise" where
  "net_delete_ok k req =
     (case req of
        GET u \<Rightarrow> Fulfilled (json_response 200 (if k = 0 then JArr [dune, alien] else JArr []))
      | DELETE u \<Rightarrow> Fulfilled no_content
      | POST u b \<Rightarrow> Fulfilled (html_response 404))"

text \<open>
  The list holds three movies. The second \<open>DELETE\<close> (request 2) never reaches the server:
  its \<open>fetch\<close> rejects. The other two are carried out.
\<close>

definition net_delete_rejects :: "nat \<Rightarrow> request \<Rightarrow> response promise" where
  "net_delete_rejects k req =
     (case req of
        GET u \<Rightarrow>
          Fulfilled (json_response 200 (if k = 0 then JArr [dune, alien, heat] else JArr [alien]))
      | DELETE u \<Rightarrow>
          (if k = 2 then Rejected (lit ''Failed to fetch'') else Fulfilled no_content)
      | POST u b \<Rightarrow> Fulfilled (html_response 404))"

text \<open>
  The list holds three movies. The server refuses the second \<open>DELETE\<close> (request 2) with
  status 500 and carries out the other two; the list read afterwards holds the movie left.
\<close>

definition net_delete_refused :: "nat \<Rightarrow> request \<Rightarrow> response promise" where
  "net_delete_refused k req =
     (case req of
        GET u \<Rightarrow>
          Fulfilled (json_response 200 (if k = 0 then JArr [dune, alien, heat] else JArr [alien]))
      | DELETE u \<Rightarrow>
          (if k = 2 then Fulfilled (html_response 500) else Fulfilled no_content)
      | POST u b \<Rightarrow> Fulfilled (html_response 404))"

text \<open>The server stores what is posted and lists one movie afterwards.\<close>

definition net_create_ok :: "nat \<Rightarrow> request \<Rightarrow> response promise" where
  "net_create_ok k req =
     (case req of
        GET u \<Rightarrow> Fulfilled (json_response 200 (JArr [dune]))
      | DELETE u \<Rightarrow> Fulfilled no_content
      | POST u b \<Rightarrow> Fulfilled (json_response 201 dune))"

text \<open>\<open>GET /users\<close> is answered with a JSON object, not an array.\<close>

definition net_users_object :: "nat \<Rightarrow> request \<Rightarrow> response promise" where
  "net_users_object k req =
     Fulfilled (json_response 200 (JObj [(lit ''message'', JStr (lit ''no users''))]))"

text \<open>\<open>GET /users\<close> is answered with status 200 and the error page.\<close>

definition net_users_html :: "nat \<Rightarrow> request \<Rightarrow> response promise" where
  "net_users_html k req = Fulfilled (html_response 200)"

text \<open>
  \<open>GET /users\<close> is answered with status 500 and a body of 150 euro signs followed by 100
  letters \<open>a\<close>. A euro sign, \<open>U+20AC\<close>, is one code unit.
\<close>

definition euro_body :: jsstring where
  "euro_body = replicate 150 0x20AC @ replicate 100 0x61"

definition net_users_euro :: "nat \<Rightarrow> request \<Rightarrow> response promise" where
  "net_users_euro k req =
     Fulfilled \<lparr>status = 500, content_type = Some (lit ''text/plain; charset=UTF-8''),
       body_text = euro_body, body_json = Rejected (lit ''Unexpected token'')\<rparr>"

text \<open>The admin page showing the given movies, and the form with a draft.\<close>

definition showing :: "json list \<Rightarrow> admin_state" where
  "showing ms = init_admin\<lparr>movies := JArr ms\<rparr>"

definition editing :: "form_draft \<Rightarrow> admin_state" where
  "editing f = init_admin\<lparr>form := f\<rparr>"

definition dune_draft :: form_draft where
  "dune_draft = emptyForm\<lparr>title := lit ''Dune'', director := lit ''Villeneuve'', salesMillions := []\<rparr>"

definition init_users :: users_state where
  "init_users = \<lparr>users = None, users_loading = False, users_error = [], users_sent = []\<rparr>"

section \<open>Auxiliary facts\<close>

subsection \<open>Strings\<close>

lemma unat_unit_of_char: "unat (unit_of_char c) = of_char c"
proof -
  have "(of_char c :: nat) mod 256 = of_char c"
    by (rule of_char_mod_256)
  then have "(of_char c :: nat) < 256"
    by (metis mod_less_divisor zero_less_numeral)
  then have "(of_char c :: nat) < 65536"
    by (rule less_trans) simp
  then have "(of_char c :: nat) mod 65536 = of_char c"
    by (rule mod_less)
  then show ?thesis
    by (simp add: unit_of_char_def unat_of_nat)
qed

lemma unit_of_char_eq_iff [simp]: "unit_of_char c = unit_of_char d \<longleftrightarrow> c = d"
proof
  assume "unit_of_char c = unit_of_char d"
  then have "unat (unit_of_char c) = unat (unit_of_char d)" by simp
  then show "c = d" by (simp add: unat_unit_of_char)
qed simp

lemma lit_Nil [simp]: "lit [] = []"
  by (simp add: lit_def)

lemma lit_Cons: "lit (c # cs) = unit_of_char c # lit cs"
  by (simp add: lit_def)

lemma lit_append: "lit (a @ b) = lit a @ lit b"
  by (simp add: lit_def)

lemma lit_join [simp]: "lit a @ lit b = lit (a @ b)" "lit a @ lit b @ x = lit (a @ b) @ x"
  by (simp_all add: lit_def)

lemma lit_eq_iff [simp]: "lit a = lit b \<longleftrightarrow> a = b"
  by (simp add: lit_def inj_map_eq_map inj_def)

lemma lit_eq_Nil [simp]: "lit a = [] \<longleftrightarrow> a = []"
  by (simp add: lit_def)

lemma js_includes_iff: "js_includes hay needle \<longleftrightarrow> (\<exists>pre post. hay = pre @ needle @ post)"
proof (induction hay)
  case Nil
  then show ?case by (auto simp: js_includes.simps)
next
  case (Cons c cs)
  show ?case
  proof
    assume "js_includes (c # cs) needle"
    then consider "prefix needle (c # cs)" | "js_includes cs needle"
      by (auto simp: js_includes.simps)
    then show "\<exists>pre post. c # cs = pre @ needle @ post"
    proof cases
      case 1
      then obtain post where "c # cs = needle @ post" by (auto simp: prefix_def)
      then have "c # cs = [] @ needle @ post" by simp
      then show ?thesis by blast
    next
      case 2
      with Cons.IH obtain pre post where "cs = pre @ needle @ post" by blast
      then have "c # cs = (c # pre) @ needle @ post" by simp
      then show ?thesis by blast
    qed
  next
    assume "\<exists>pre post. c # cs = pre @ needle @ post"
    then obtain pre post where eq: "c # cs = pre @ needle @ post" by blast
    show "js_includes (c # cs) needle"
    proof (cases pre)
      case Nil
      with eq have "prefix needle (c # cs)" by (simp add: prefix_def)
      then show ?thesis by (simp add: js_includes.simps)
    next
      case (Cons p ps)
      with eq have "cs = ps @ needle @ post" by simp
      with Cons.IH have "js_includes cs needle" by blast
      then show ?thesis by (simp add: js_includes.simps)
    qed
  qed
qed

lemma js_includes_middle: "js_includes (pre @ needle @ post) needle"
  by (auto simp: js_includes_iff)

lemma js_includes_suffix: "js_includes (pre @ needle) needle"
  using js_includes_middle [of pre needle "[]"] by simp

lemma trim_empty_iff: "trim s = [] \<longleftrightarrow> (\<forall>c\<in>set s. is_space c)"
proof
  assume "trim s = []"
  then have all: "\<forall>c\<in>set (dropWhile is_space s). is_space c"
    by (simp add: trim_def)
  have "dropWhile is_space s = []"
  proof (rule ccontr)
    assume ne: "dropWhile is_space s \<noteq> []"
    then have "\<not> is_space (hd (dropWhile is_space s))" by (rule hd_dropWhile)
    moreover from ne have "hd (dropWhile is_space s) \<in> set (dropWhile is_space s)" by simp
    ultimately show False using all by blast
  qed
  then show "\<forall>c\<in>set s. is_space c" by simp
next
  assume "\<forall>c\<in>set s. is_space c"
  then have d: "dropWhile is_space s = []" by simp
  show "trim s = []" unfolding trim_def d by simp
qed

lemma decimal_500: "decimal 500 = ''500''"
  by (simp add: decimal.simps digit_char_def)

subsection \<open>What a reload changes\<close>

lemma load_form: "form (load e s) = form s"
  by (simp add: load_def load_catch_def fetch_def Let_def split: promise.split)

lemma load_sent: "sent (load e s) = sent s @ [GET (lit ''/api/movies'')]"
  by (simp add: load_def load_catch_def fetch_def Let_def split: promise.split)

lemma load_finally: "(load e s)\<lparr>loading := False\<rparr> = load e s"
  by (simp add: load_def load_catch_def fetch_def Let_def split: promise.split)

subsection \<open>The requests of \<open>deleteAll\<close> and \<open>Promise.all\<close>\<close>

lemma fire_deletes_issued:
  assumes "JNull \<notin> set ms"
  shows "fire_deletes e ms s =
    (Fulfilled (map (\<lambda>i. (length (sent s) + i,
        respond e (length (sent s) + i) (delete_request e (ms ! i)))) [0..<length ms]),
     s\<lparr>sent := sent s @ map (delete_request e) ms\<rparr>)"
  using assms
proof (induction ms arbitrary: s)
  case Nil
  then show ?case by simp
next
  case (Cons m ms)
  let ?s' = "s\<lparr>sent := sent s @ [delete_request e m]\<rparr>"
  from Cons.prems have "JNull \<notin> set ms" and "m \<noteq> JNull" by auto
  with Cons.IH [of ?s'] show ?case
    by (simp add: fetch_def map_upt_Suc del: upt_Suc)
qed

lemma first_rejection_None:
  "first_rejection t ps = None \<longleftrightarrow> (\<forall>k msg. (k, Rejected msg) \<notin> set ps)"
  by (induction t ps rule: first_rejection.induct) (auto split: option.splits)

lemma first_rejection_Some:
  assumes "first_rejection t ps = Some (k, msg)"
  shows "(k, Rejected msg) \<in> set ps
    \<and> (\<forall>k' msg'. (k', Rejected msg') \<in> set ps \<longrightarrow> t k \<le> t k')"
  using assms
proof (induction t ps arbitrary: k msg rule: first_rejection.induct)
  case (1 t)
  then show ?case by simp
next
  case (2 t k0 v ps)
  then show ?case by auto
next
  case (3 t k0 msg0 ps)
  show ?case
  proof (cases "first_rejection t ps")
    case None
    with "3.prems" have "k = k0" "msg = msg0" by simp_all
    moreover from None have "\<forall>k' msg'. (k', Rejected msg') \<notin> set ps"
      by (simp add: first_rejection_None)
    ultimately show ?thesis by auto
  next
    case (Some km)
    obtain k1 msg1 where km: "km = (k1, msg1)" by (cases km)
    from "3.IH" [of k1 msg1] Some km
    have ih: "(k1, Rejected msg1) \<in> set ps"
      "\<forall>k' msg'. (k', Rejected msg') \<in> set ps \<longrightarrow> t k1 \<le> t k'" by auto
    show ?thesis
    proof (cases "t k1 < t k0")
      case True
      with "3.prems" Some km have "k = k1" "msg = msg1" by simp_all
      with ih True show ?thesis by auto
    next
      case False
      with "3.prems" Some km have "k = k0" "msg = msg0" by simp_all
      with ih False show ?thesis by fastforce
    qed
  qed
qed

lemma promise_all_Fulfilled:
  assumes "\<forall>k msg. (k, Rejected msg) \<notin> set ps"
  shows "promise_all t ps = Fulfilled (values_of ps)"
  using assms by (simp add: promise_all_def first_rejection_None [THEN iffD2])

lemma promise_all_Rejected:
  assumes "(k, Rejected msg) \<in> set ps"
  shows "\<exists>k' msg'. promise_all t ps = Rejected msg' \<and> (k', Rejected msg') \<in> set ps
    \<and> (\<forall>j m. (j, Rejected m) \<in> set ps \<longrightarrow> t k' \<le> t j)"
proof (cases "first_rejection t ps")
  case None
  with assms show ?thesis by (simp add: first_rejection_None)
next
  case (Some km)
  obtain k1 msg1 where km: "km = (k1, msg1)" by (cases km)
  from first_rejection_Some [of t ps k1 msg1] Some km
  have "(k1, Rejected msg1) \<in> set ps"
    "\<forall>j m. (j, Rejected m) \<in> set ps \<longrightarrow> t k1 \<le> t j" by auto
  moreover from Some km have "promise_all t ps = Rejected msg1"
    by (simp add: promise_all_def)
  ultimately show ?thesis by blast
qed

lemma deleteAll_unfold:
  assumes "respond e (length (sent s)) (GET (lit ''/api/movies'')) = Fulfilled res"
    and "ok res"
    and "body_json res = Fulfilled (JArr ms)"
    and "JNull \<notin> set ms"
  shows "deleteAll e True s =
    (case promise_all (settle_time e)
        (map (\<lambda>i. (Suc (length (sent s)) + i,
           respond e (Suc (length (sent s)) + i) (delete_request e (ms ! i)))) [0..<length ms]) of
       Rejected msg \<Rightarrow>
         s\<lparr>loading := False, error := msg,
           sent := sent s @ GET (lit ''/api/movies'') # map (delete_request e) ms\<rparr>
     | Fulfilled rs \<Rightarrow>
         load e (s\<lparr>loading := True, error := [],
           sent := sent s @ GET (lit ''/api/movies'') # map (delete_request e) ms\<rparr>))"
  using assms
  by (simp add: deleteAll_def fetch_def fire_deletes_issued load_finally op_catch_def
      split: promise.split)

subsection \<open>Unfolding the scenarios\<close>

lemmas scenario_defs =
  engine_def movie_def dune_def alien_def heat_def json_response_def no_content_def
  html_response_def html_page_def showing_def editing_def init_admin_def delete_request_def ok_def

section \<open>The movies page\<close>

subsection \<open>The payload\<close>

text \<open>
  C6. For every draft, each optional field that is the empty string is \<open>null\<close> in the payload;
  \<open>salesMillions\<close> is \<open>null\<close> when it is the empty string and the number \<open>Number\<close> gives for
  it otherwise; the draft with title Dune, director Villeneuve and an empty \<open>salesMillions\<close>
  has \<open>salesMillions: null\<close> in its payload.
\<close>

theorem toPayload_empty_is_null:
  "(director f = [] \<longrightarrow> get_prop (toPayload num f) (lit ''director'') = Some JNull)
   \<and> (genre f = [] \<longrightarrow> get_prop (toPayload num f) (lit ''genre'') = Some JNull)
   \<and> (leadActor1 f = [] \<longrightarrow> get_prop (toPayload num f) (lit ''leadActor1'') = Some JNull)
   \<and> (leadActor2 f = [] \<longrightarrow> get_prop (toPayload num f) (lit ''leadActor2'') = Some JNull)
   \<and> (releaseDate f = [] \<longrightarrow> get_prop (toPayload num f) (lit ''releaseDate'') = Some JNull)
   \<and> (posterUrl f = [] \<longrightarrow> get_prop (toPayload num f) (lit ''posterUrl'') = Some JNull)
   \<and> (salesMillions f = [] \<longrightarrow> get_prop (toPayload num f) (lit ''salesMillions'') = Some JNull)
   \<and> (salesMillions f \<noteq> [] \<longrightarrow>
        get_prop (toPayload num f) (lit ''salesMillions'') = Some (JNum (num (salesMillions f))))
   \<and> get_prop (toPayload num dune_draft) (lit ''salesMillions'') = Some JNull"
  by (simp add: toPayload_def SEND_SNAKE_CASE_def or_null_def dune_draft_def emptyForm_def)

theorem toPayload_empty_is_null_witness:
  "get_prop (toPayload (Number (engine net_create_ok)) (dune_draft\<lparr>salesMillions := lit ''402''\<rparr>))
     (lit ''genre'') = Some JNull
   \<and> get_prop (toPayload (Number (engine net_create_ok)) (dune_draft\<lparr>salesMillions := lit ''402''\<rparr>))
     (lit ''salesMillions'') = Some (JNum (Finite 402))
   \<and> get_prop (toPayload (Number (engine net_create_ok)) dune_draft) (lit ''salesMillions'') = Some JNull
   \<and> get_prop (toPayload (Number (engine net_create_ok)) dune_draft) (lit ''director'')
     = Some (JStr (lit ''Villeneuve''))"
proof -
  let ?num = "Number (engine net_create_ok)"
  let ?f = "dune_draft\<lparr>salesMillions := lit ''402''\<rparr>"
  have g: "genre ?f = []" and s: "salesMillions ?f \<noteq> []"
    by (simp_all add: dune_draft_def emptyForm_def)
  have n: "?num (salesMillions ?f) = Finite 402"
    by (simp add: engine_def)
  have d: "get_prop (toPayload ?num dune_draft) (lit ''director'') = Some (JStr (lit ''Villeneuve''))"
    by (simp add: toPayload_def SEND_SNAKE_CASE_def or_null_def dune_draft_def emptyForm_def)
  from toPayload_empty_is_null [of ?f ?num] g s n d show ?thesis by simp
qed

subsection \<open>Loading the movies\<close>

text \<open>
  C7. When \<open>GET /api/movies\<close> is answered with a status that is not a success, \<open>load\<close> stores
  a message that contains the status code and sets the movies to the empty list, whatever was
  shown before.
\<close>

theorem load_bad_status:
  assumes "respond e (length (sent s)) (GET (lit ''/api/movies'')) = Fulfilled res"
    and "\<not> ok res"
  shows "error (load e s) = lit ''GET /api/movies failed: '' @ lit (decimal (status res))
    \<and> js_includes (error (load e s)) (lit (decimal (status res)))
    \<and> movies (load e s) = JArr []"
proof -
  have msg: "error (load e s) = lit ''GET /api/movies failed: '' @ lit (decimal (status res))"
    using assms by (simp add: load_def load_catch_def fetch_def)
  have cleared: "movies (load e s) = JArr []"
    using assms by (simp add: load_def load_catch_def fetch_def)
  have "js_includes (error (load e s)) (lit (decimal (status res)))"
    unfolding msg by (rule js_includes_suffix)
  with msg cleared show ?thesis by blast
qed

theorem load_bad_status_witness:
  "error (load (engine net_all_500) (showing [dune])) = lit ''GET /api/movies failed: 500''
   \<and> js_includes (error (load (engine net_all_500) (showing [dune]))) (lit ''500'')
   \<and> movies (load (engine net_all_500) (showing [dune])) = JArr []
   \<and> movies (showing [dune]) = JArr [dune]"
proof -
  let ?e = "engine net_all_500" and ?s = "showing [dune]"
  have r: "respond ?e (length (sent ?s)) (GET (lit ''/api/movies'')) = Fulfilled (html_response 500)"
    by (simp add: engine_def net_all_500_def)
  have bad: "\<not> ok (html_response 500)"
    by (simp add: ok_def html_response_def)
  have d: "lit (decimal (status (html_response 500))) = lit ''500''"
    by (simp add: html_response_def decimal_500)
  have before: "movies ?s = JArr [dune]"
    by (simp add: showing_def)
  from load_bad_status [OF r bad, unfolded d] before show ?thesis by (elim conjE) simp
qed

subsection \<open>Adding a movie\<close>

text \<open>
  C4. For every draft whose title is empty or holds whitespace only (any of the white space
  and line terminator characters that \<open>trim\<close> strips, NO-BREAK SPACE and IDEOGRAPHIC SPACE
  among them), \<open>addMovie\<close> issues no request and ends with the message of the validation
  error; nothing else has changed.
\<close>

theorem addMovie_blank_title:
  assumes "\<forall>c\<in>set (title (form s)). is_space c"
  shows "addMovie e s = s\<lparr>loading := False, error := lit ''Title is required''\<rparr>
    \<and> sent (addMovie e s) = sent s"
proof -
  from assms have "trim (title (form s)) = []"
    by (simp add: trim_empty_iff)
  then show ?thesis
    by (simp add: addMovie_def op_catch_def)
qed

theorem addMovie_blank_title_witness:
  "sent (addMovie (engine net_create_ok)
        (editing (dune_draft\<lparr>title := [0x20, 0x09, 0xA0, 0x3000]\<rparr>))) = []
   \<and> error (addMovie (engine net_create_ok)
        (editing (dune_draft\<lparr>title := [0x20, 0x09, 0xA0, 0x3000]\<rparr>))) = lit ''Title is required''
   \<and> sent (addMovie (engine net_create_ok) (editing (dune_draft\<lparr>title := []\<rparr>))) = []
   \<and> error (addMovie (engine net_create_ok) (editing (dune_draft\<lparr>title := []\<rparr>)))
       = lit ''Title is required''"
proof -
  let ?e = "engine net_create_ok"
  let ?s = "editing (dune_draft\<lparr>title := [0x20, 0x09, 0xA0, 0x3000]\<rparr>)"
  let ?t = "editing (dune_draft\<lparr>title := []\<rparr>)"
  have blank: "\<forall>c\<in>set (title (form ?s)). is_space c"
    by (simp add: editing_def init_admin_def is_space_def)
  have empty: "\<forall>c\<in>set (title (form ?t)). is_space c"
    by (simp add: editing_def init_admin_def)
  from addMovie_blank_title [OF blank, of ?e]
  have a: "addMovie ?e ?s = ?s\<lparr>loading := False, error := lit ''Title is required''\<rparr>"
    by blast
  from addMovie_blank_title [OF empty, of ?e]
  have b: "addMovie ?e ?t = ?t\<lparr>loading := False, error := lit ''Title is required''\<rparr>"
    by blast
  show ?thesis
    unfolding a b by (simp add: editing_def init_admin_def)
qed

text \<open>
  C8. \<open>addMovie\<close> sets the draft to the empty template when the submit succeeds: the title is
  not blank and the \<open>POST\<close> is answered with a success status. In every other case the draft
  is what it was: when the title is blank and when the server answers with another status, with
  a message stored that is not empty, and when the request fails on the network, with the
  message of that failure.
\<close>

theorem addMovie_form:
  "(trim (title (form s)) \<noteq> []
      \<and> respond e (length (sent s)) (POST (lit ''/api/admin/movies'') (toPayload (Number e) (form s)))
          = Fulfilled res
      \<and> ok res
    \<longrightarrow> form (addMovie e s) = emptyForm)
   \<and> (trim (title (form s)) = []
    \<longrightarrow> form (addMovie e s) = form s \<and> error (addMovie e s) = lit ''Title is required'')
   \<and> (trim (title (form s)) \<noteq> []
      \<and> respond e (length (sent s)) (POST (lit ''/api/admin/movies'') (toPayload (Number e) (form s)))
          = Fulfilled res
      \<and> \<not> ok res
    \<longrightarrow> form (addMovie e s) = form s
      \<and> error (addMovie e s) = lit ''POST failed '' @ lit (decimal (status res)) @ lit '': '' @ body_text res
      \<and> error (addMovie e s) \<noteq> [])
   \<and> (trim (title (form s)) \<noteq> []
      \<and> respond e (length (sent s)) (POST (lit ''/api/admin/movies'') (toPayload (Number e) (form s)))
          = Rejected msg
    \<longrightarrow> form (addMovie e s) = form s \<and> error (addMovie e s) = msg)"
  by (simp add: addMovie_def op_catch_def fetch_def load_form)

theorem addMovie_form_witness:
  "form (addMovie (engine net_create_ok) (editing dune_draft)) = emptyForm
   \<and> form (editing dune_draft) \<noteq> emptyForm
   \<and> form (addMovie (engine net_all_500) (editing dune_draft)) = dune_draft
   \<and> error (addMovie (engine net_all_500) (editing dune_draft))
       = lit ''POST failed 500: <html><body>Server Error</body></html>''
   \<and> form (addMovie (engine net_all_500) (editing (dune_draft\<lparr>title := [0xA0]\<rparr>)))
       = dune_draft\<lparr>title := [0xA0]\<rparr>
   \<and> error (addMovie (engine net_all_500) (editing (dune_draft\<lparr>title := [0xA0]\<rparr>)))
       = lit ''Title is required''"
proof -
  let ?ok = "engine net_create_ok" and ?bad = "engine net_all_500"
  let ?s = "editing dune_draft" and ?blank = "editing (dune_draft\<lparr>title := [0xA0]\<rparr>)"
  have f: "form ?s = dune_draft" "form ?blank = dune_draft\<lparr>title := [0xA0]\<rparr>"
    by (simp_all add: editing_def)
  have ne: "form ?s \<noteq> emptyForm"
    by (simp add: editing_def dune_draft_def emptyForm_def)
  have t: "trim (title (form ?s)) \<noteq> []"
    by (simp add: editing_def dune_draft_def trim_def is_space_def lit_Cons unit_of_char_def)
  have b: "trim (title (form ?blank)) = []"
    by (simp add: editing_def trim_def is_space_def lit_Cons unit_of_char_def)
  have r1: "respond ?ok (length (sent ?s))
      (POST (lit ''/api/admin/movies'') (toPayload (Number ?ok) (form ?s)))
      = Fulfilled (json_response 201 dune)"
    by (simp add: engine_def net_create_ok_def)
  have ok1: "ok (json_response 201 dune)"
    by (simp add: ok_def json_response_def)
  have r2: "respond ?bad (length (sent ?s))
      (POST (lit ''/api/admin/movies'') (toPayload (Number ?bad) (form ?s)))
      = Fulfilled (html_response 500)"
    by (simp add: engine_def net_all_500_def)
  have bad2: "\<not> ok (html_response 500)"
    by (simp add: ok_def html_response_def)
  have m: "lit ''POST failed '' @ lit (decimal (status (html_response 500))) @ lit '': ''
      @ body_text (html_response 500) = lit ''POST failed 500: <html><body>Server Error</body></html>''"
    by (simp add: html_response_def html_page_def decimal_500)
  from addMovie_form [of ?s ?ok "json_response 201 dune"] t r1 ok1
  have c1: "form (addMovie ?ok ?s) = emptyForm" by blast
  from addMovie_form [of ?s ?bad "html_response 500"] t r2 bad2
  have c2: "form (addMovie ?bad ?s) = form ?s
    \<and> error (addMovie ?bad ?s) = lit ''POST failed '' @ lit (decimal (status (html_response 500))) @ lit '': ''
      @ body_text (html_response 500)" by blast
  from addMovie_form [of ?blank ?bad] b
  have c3: "form (addMovie ?bad ?blank) = form ?blank
    \<and> error (addMovie ?bad ?blank) = lit ''Title is required''" by blast
  from c1 c2 c3 ne show ?thesis
    unfolding m f by blast
qed

subsection \<open>Deleting\<close>

text \<open>
  C9. When the user declines the confirmation, \<open>deleteOne\<close> and \<open>deleteAll\<close> return at once:
  the state is the one before, with its movies, draft, loading flag and message, and no
  request has been issued.
\<close>

theorem delete_declined:
  "deleteOne e False ident s = s \<and> deleteAll e False s = s"
  by (simp add: deleteOne_def deleteAll_def)

theorem delete_declined_witness:
  "deleteOne (engine net_delete_refused) False (Some (JStr (lit ''m1''))) (showing [dune]) = showing [dune]
   \<and> deleteAll (engine net_delete_refused) False (showing [dune]) = showing [dune]
   \<and> sent (deleteAll (engine net_delete_refused) False (showing [dune])) = []"
proof -
  have "sent (showing [dune]) = []"
    by (simp add: showing_def init_admin_def)
  with delete_declined [of "engine net_delete_refused" "Some (JStr (lit ''m1''))" "showing [dune]"]
  show ?thesis by simp
qed

text \<open>
  C3. When the list read at the start of \<open>deleteAll\<close> is answered with a status that is not a
  success, the operation stops with an error message: the only request issued is that read, no
  \<open>DELETE\<close> follows, and the movies shown are not touched.
\<close>

theorem deleteAll_list_fails:
  assumes "respond e (length (sent s)) (GET (lit ''/api/movies'')) = Fulfilled res"
    and "\<not> ok res"
  shows "deleteAll e True s
      = s\<lparr>loading := False, error := lit ''Failed to load movies before deleting'',
          sent := sent s @ [GET (lit ''/api/movies'')]\<rparr>"
  using assms by (simp add: deleteAll_def op_catch_def fetch_def)

theorem deleteAll_list_fails_witness:
  "sent (deleteAll (engine net_all_500) True (showing [dune])) = [GET (lit ''/api/movies'')]
   \<and> error (deleteAll (engine net_all_500) True (showing [dune]))
       = lit ''Failed to load movies before deleting''
   \<and> movies (deleteAll (engine net_all_500) True (showing [dune])) = JArr [dune]"
proof -
  let ?e = "engine net_all_500" and ?s = "showing [dune]"
  have r: "respond ?e (length (sent ?s)) (GET (lit ''/api/movies'')) = Fulfilled (html_response 500)"
    by (simp add: engine_def net_all_500_def)
  have bad: "\<not> ok (html_response 500)"
    by (simp add: ok_def html_response_def)
  show ?thesis
    unfolding deleteAll_list_fails [OF r bad] by (simp add: showing_def init_admin_def)
qed

text \<open>
  C2, as the code has it. Let the list read at the start of \<open>deleteAll\<close> succeed with an array
  without \<open>null\<close> elements, so that one \<open>DELETE\<close> is issued for each element. When each of
  them is answered with a success status, the list is read again and the state is the one that
  \<open>load\<close> leaves. When one of them is rejected, no request follows the \<open>DELETE\<close>s, the movies
  shown are the ones shown before, and the message stored is that of a rejected \<open>DELETE\<close>
  which settled no later than any other rejected one.
\<close>

theorem deleteAll_reload:
  assumes "respond e (length (sent s)) (GET (lit ''/api/movies'')) = Fulfilled res"
    and "ok res"
    and "body_json res = Fulfilled (JArr ms)"
    and "JNull \<notin> set ms"
  shows "((\<forall>i<length ms. \<exists>r.
          respond e (Suc (length (sent s)) + i) (delete_request e (ms ! i)) = Fulfilled r \<and> ok r)
      \<longrightarrow> deleteAll e True s
          = load e (s\<lparr>loading := True, error := [],
              sent := sent s @ GET (lit ''/api/movies'') # map (delete_request e) ms\<rparr>)
        \<and> sent (deleteAll e True s)
          = sent s @ GET (lit ''/api/movies'') # map (delete_request e) ms @ [GET (lit ''/api/movies'')])
    \<and> ((\<exists>i<length ms. \<exists>msg.
          respond e (Suc (length (sent s)) + i) (delete_request e (ms ! i)) = Rejected msg)
      \<longrightarrow> sent (deleteAll e True s) = sent s @ GET (lit ''/api/movies'') # map (delete_request e) ms
        \<and> movies (deleteAll e True s) = movies s
        \<and> (\<exists>j<length ms.
              respond e (Suc (length (sent s)) + j) (delete_request e (ms ! j))
                = Rejected (error (deleteAll e True s))
              \<and> (\<forall>i<length ms. \<forall>msg.
                    respond e (Suc (length (sent s)) + i) (delete_request e (ms ! i))
                      = Rejected msg
                    \<longrightarrow> settle_time e (Suc (length (sent s)) + j)
                        \<le> settle_time e (Suc (length (sent s)) + i))))"
proof -
  let ?n = "Suc (length (sent s))"
  let ?out = "\<lambda>i. respond e (?n + i) (delete_request e (ms ! i))"
  let ?ps = "map (\<lambda>i. (?n + i, ?out i)) [0..<length ms]"
  let ?s3 = "s\<lparr>loading := True, error := [],
    sent := sent s @ GET (lit ''/api/movies'') # map (delete_request e) ms\<rparr>"
  note unfold = deleteAll_unfold [OF assms]
  have mem: "(k, p) \<in> set ?ps \<longleftrightarrow> (\<exists>i<length ms. k = ?n + i \<and> p = ?out i)" for k p
    by auto
  have resolved: "deleteAll e True s = load e ?s3
      \<and> sent (deleteAll e True s)
        = sent s @ GET (lit ''/api/movies'') # map (delete_request e) ms @ [GET (lit ''/api/movies'')]"
    if all: "\<forall>i<length ms. \<exists>r. ?out i = Fulfilled r \<and> ok r"
  proof -
    have "\<forall>k msg. (k, Rejected msg) \<notin> set ?ps"
    proof (intro allI notI)
      fix k msg
      assume "(k, Rejected msg) \<in> set ?ps"
      then obtain i where "i < length ms" "?out i = Rejected msg"
        unfolding mem by auto
      with all show False by auto
    qed
    then have "promise_all (settle_time e) ?ps = Fulfilled (values_of ?ps)"
      by (rule promise_all_Fulfilled)
    with unfold have eq: "deleteAll e True s = load e ?s3" by simp
    then show ?thesis by (simp add: load_sent)
  qed
  have rejected: "sent (deleteAll e True s)
        = sent s @ GET (lit ''/api/movies'') # map (delete_request e) ms
      \<and> movies (deleteAll e True s) = movies s
      \<and> (\<exists>j<length ms. ?out j = Rejected (error (deleteAll e True s))
          \<and> (\<forall>i<length ms. \<forall>msg. ?out i = Rejected msg
                \<longrightarrow> settle_time e (?n + j) \<le> settle_time e (?n + i)))"
    if some: "\<exists>i<length ms. \<exists>msg. ?out i = Rejected msg"
  proof -
    from some obtain i msg where "i < length ms" "?out i = Rejected msg" by blast
    then have "(?n + i, Rejected msg) \<in> set ?ps"
      unfolding mem by auto
    from promise_all_Rejected [OF this, of "settle_time e"]
    obtain k' msg' where all: "promise_all (settle_time e) ?ps = Rejected msg'"
      and in_ps: "(k', Rejected msg') \<in> set ?ps"
      and first: "\<forall>j m. (j, Rejected m) \<in> set ?ps \<longrightarrow> settle_time e k' \<le> settle_time e j"
      by blast
    from in_ps obtain j where j: "j < length ms" "k' = ?n + j" "?out j = Rejected msg'"
      unfolding mem by auto
    from unfold all have eq: "deleteAll e True s = s\<lparr>loading := False, error := msg',
        sent := sent s @ GET (lit ''/api/movies'') # map (delete_request e) ms\<rparr>"
      by simp
    have "settle_time e (?n + j) \<le> settle_time e (?n + i')"
      if "i' < length ms" "?out i' = Rejected m" for i' m
    proof -
      from that have "(?n + i', Rejected m) \<in> set ?ps"
        unfolding mem by auto
      with first j show ?thesis by blast
    qed
    with j eq show ?thesis by auto
  qed
  from resolved rejected show ?thesis by blast
qed

theorem deleteAll_reload_witness:
  "sent (deleteAll (engine net_delete_ok) True (showing [dune, alien]))
     = [GET (lit ''/api/movies''), DELETE (lit ''/api/admin/movies/m1''), DELETE (lit ''/api/admin/movies/m2''),
        GET (lit ''/api/movies'')]
   \<and> movies (deleteAll (engine net_delete_ok) True (showing [dune, alien])) = JArr []
   \<and> error (deleteAll (engine net_delete_ok) True (showing [dune, alien])) = []
   \<and> sent (deleteAll (engine net_delete_rejects) True (showing [dune, alien, heat]))
     = [GET (lit ''/api/movies''), DELETE (lit ''/api/admin/movies/m1''), DELETE (lit ''/api/admin/movies/m2''),
        DELETE (lit ''/api/admin/movies/m3'')]
   \<and> movies (deleteAll (engine net_delete_rejects) True (showing [dune, alien, heat]))
     = JArr [dune, alien, heat]
   \<and> error (deleteAll (engine net_delete_rejects) True (showing [dune, alien, heat]))
     = lit ''Failed to fetch''"
proof -
  let ?e = "engine net_delete_ok" and ?s = "showing [dune, alien]"
  let ?res = "json_response 200 (JArr [dune, alien])"
  have r: "respond ?e (length (sent ?s)) (GET (lit ''/api/movies'')) = Fulfilled ?res"
    by (simp add: scenario_defs net_delete_ok_def)
  have good: "ok ?res" and body: "body_json ?res = Fulfilled (JArr [dune, alien])"
    by (simp_all add: scenario_defs)
  have nn: "JNull \<notin> set [dune, alien]"
    by (simp add: scenario_defs)
  have all: "\<forall>i<length [dune, alien]. \<exists>r.
      respond ?e (Suc (length (sent ?s)) + i) (delete_request ?e ([dune, alien] ! i)) = Fulfilled r
      \<and> ok r"
    by (simp add: scenario_defs net_delete_ok_def)
  from deleteAll_reload [OF r good body nn] all
  have a: "deleteAll ?e True ?s
      = load ?e (?s\<lparr>loading := True, error := [],
          sent := sent ?s @ GET (lit ''/api/movies'') # map (delete_request ?e) [dune, alien]\<rparr>)"
    by blast
  have first: "sent (deleteAll ?e True ?s)
      = [GET (lit ''/api/movies''), DELETE (lit ''/api/admin/movies/m1''), DELETE (lit ''/api/admin/movies/m2''),
         GET (lit ''/api/movies'')]
    \<and> movies (deleteAll ?e True ?s) = JArr []
    \<and> error (deleteAll ?e True ?s) = []"
    unfolding a by (simp add: load_def fetch_def scenario_defs net_delete_ok_def)
  let ?e' = "engine net_delete_rejects" and ?s' = "showing [dune, alien, heat]"
  let ?res' = "json_response 200 (JArr [dune, alien, heat])"
  have r': "respond ?e' (length (sent ?s')) (GET (lit ''/api/movies'')) = Fulfilled ?res'"
    by (simp add: scenario_defs net_delete_rejects_def)
  have good': "ok ?res'" and body': "body_json ?res' = Fulfilled (JArr [dune, alien, heat])"
    by (simp_all add: scenario_defs)
  have nn': "JNull \<notin> set [dune, alien, heat]"
    by (simp add: scenario_defs)
  have second: "respond ?e' (Suc (length (sent ?s')) + 1)
      (delete_request ?e' ([dune, alien, heat] ! 1)) = Rejected (lit ''Failed to fetch'')"
    by (simp add: scenario_defs net_delete_rejects_def)
  then have some: "\<exists>i<length [dune, alien, heat]. \<exists>msg.
      respond ?e' (Suc (length (sent ?s')) + i) (delete_request ?e' ([dune, alien, heat] ! i))
        = Rejected msg"
    by (intro exI [of _ 1]) simp
  from deleteAll_reload [OF r' good' body' nn'] some
  have b: "sent (deleteAll ?e' True ?s')
        = sent ?s' @ GET (lit ''/api/movies'') # map (delete_request ?e') [dune, alien, heat]
      \<and> movies (deleteAll ?e' True ?s') = movies ?s'
      \<and> (\<exists>j<length [dune, alien, heat].
            respond ?e' (Suc (length (sent ?s')) + j)
              (delete_request ?e' ([dune, alien, heat] ! j))
              = Rejected (error (deleteAll ?e' True ?s')))"
    by blast
  then obtain j where j: "j < length [dune, alien, heat]"
    "respond ?e' (Suc (length (sent ?s')) + j) (delete_request ?e' ([dune, alien, heat] ! j))
      = Rejected (error (deleteAll ?e' True ?s'))"
    by blast
  from j(1) have "j < 3" by simp
  then consider "j = 0" | "j = 1" | "j = 2" by linarith
  then have msg: "error (deleteAll ?e' True ?s') = lit ''Failed to fetch''"
    using j(2) by cases (simp_all add: scenario_defs net_delete_rejects_def)
  from b have "sent (deleteAll ?e' True ?s')
      = [GET (lit ''/api/movies''), DELETE (lit ''/api/admin/movies/m1''), DELETE (lit ''/api/admin/movies/m2''),
         DELETE (lit ''/api/admin/movies/m3'')]
    \<and> movies (deleteAll ?e' True ?s') = JArr [dune, alien, heat]"
    by (simp add: scenario_defs)
  with first msg show ?thesis by blast
qed

text \<open>
  The claim as written, with the reload performed whether or not a \<open>DELETE\<close> failed, does
  not hold when a \<open>DELETE\<close> is rejected: of three movies the server removes two, the request
  for the remaining one fails on the network, and the handler ends without reading the list
  again. The page goes on showing the three movies, while the server lists one.
\<close>

theorem deleteAll_no_reload_after_rejection:
  "respond (engine net_delete_rejects) 2 (DELETE (lit ''/api/admin/movies/m2''))
     = Rejected (lit ''Failed to fetch'')
   \<and> sent (deleteAll (engine net_delete_rejects) True (showing [dune, alien, heat]))
     = [GET (lit ''/api/movies''), DELETE (lit ''/api/admin/movies/m1''), DELETE (lit ''/api/admin/movies/m2''),
        DELETE (lit ''/api/admin/movies/m3'')]
   \<and> GET (lit ''/api/movies'')
     \<notin> set (tl (sent (deleteAll (engine net_delete_rejects) True (showing [dune, alien, heat]))))
   \<and> movies (deleteAll (engine net_delete_rejects) True (showing [dune, alien, heat]))
     = JArr [dune, alien, heat]
   \<and> respond (engine net_delete_rejects) 4 (GET (lit ''/api/movies''))
     = Fulfilled (json_response 200 (JArr [alien]))"
  by (simp add: deleteAll_def fetch_def op_catch_def promise_all_def scenario_defs
      net_delete_rejects_def)

text \<open>
  C1 says that \<open>deleteAll\<close> fails with an error message when one of its \<open>DELETE\<close>s is
  answered with a status that is not a success, as \<open>deleteOne\<close> does. The code does not: of
  three movies the server refuses to delete the second and answers that \<open>DELETE\<close> with status
  500; \<open>deleteAll\<close> never looks at the status of a \<open>DELETE\<close> response, so it goes on to read
  the list again and ends with no message stored, the refused movie still listed.
\<close>

theorem deleteAll_ignores_delete_status:
  "respond (engine net_delete_refused) 2 (DELETE (lit ''/api/admin/movies/m2''))
     = Fulfilled (html_response 500)
   \<and> \<not> ok (html_response 500)
   \<and> sent (deleteAll (engine net_delete_refused) True (showing [dune, alien, heat]))
     = [GET (lit ''/api/movies''), DELETE (lit ''/api/admin/movies/m1''), DELETE (lit ''/api/admin/movies/m2''),
        DELETE (lit ''/api/admin/movies/m3''), GET (lit ''/api/movies'')]
   \<and> error (deleteAll (engine net_delete_refused) True (showing [dune, alien, heat])) = []
   \<and> movies (deleteAll (engine net_delete_refused) True (showing [dune, alien, heat]))
     = JArr [alien]"
  by (simp add: deleteAll_def fetch_def op_catch_def promise_all_def load_def scenario_defs
      net_delete_refused_def)

section \<open>The users list\<close>

text \<open>
  C10. When \<open>GET /users\<close> is answered with a success status and a JSON content type, and the
  parsed body is not an array, the load ends without an error: the users are the empty list
  and no message is stored.
\<close>

theorem load_users_not_an_array:
  assumes "respond e (length (users_sent s)) (GET (lit ''/users'')) = Fulfilled res"
    and "ok res"
    and "js_includes (detected_type e res) (lit ''application/json'')"
    and "body_json res = Fulfilled data"
    and "\<forall>xs. data \<noteq> JArr xs"
  shows "users (load_users e s) = Some []
    \<and> users_error (load_users e s) = []
    \<and> users_loading (load_users e s) = False"
  using assms by (cases data) (simp_all add: load_users_def endpoint_def)

theorem load_users_not_an_array_witness:
  "users (load_users (engine net_users_object) init_users) = Some []
   \<and> users_error (load_users (engine net_users_object) init_users) = []
   \<and> users_loading (load_users (engine net_users_object) init_users) = False"
proof -
  let ?e = "engine net_users_object"
  let ?v = "JObj [(lit ''message'', JStr (lit ''no users''))]"
  have r: "respond ?e (length (users_sent init_users)) (GET (lit ''/users''))
      = Fulfilled (json_response 200 ?v)"
    by (simp add: engine_def net_users_object_def)
  have good: "ok (json_response 200 ?v)"
    by (simp add: ok_def json_response_def)
  have ct: "js_includes (detected_type ?e (json_response 200 ?v)) (lit ''application/json'')"
    by (simp add: detected_type_def json_response_def toLowerCase_def lower_unit_def lit_Cons
        unit_of_char_def js_includes.simps)
  have b: "body_json (json_response 200 ?v) = Fulfilled ?v"
    by (simp add: json_response_def)
  have na: "\<forall>xs. ?v \<noteq> JArr xs"
    by simp
  from load_users_not_an_array [OF r good ct b na] show ?thesis .
qed

section \<open>Error messages of the two lists\<close>

text \<open>
  C5, as the code has it. When \<open>GET /users\<close> is answered with a status that is not a success,
  the message of the users list holds the status and the first 200 characters of the body,
  counted in UTF-16 code units as \<open>substring\<close> counts them. When the status is a success and
  the content type, in lower case, does not contain \<open>application/json\<close>, the message holds
  that content type and the first 200 characters of the body. The message of the movies list
  for a status that is not a success holds the status alone.
\<close>

theorem load_users_message:
  "(respond e (length (users_sent u)) (GET (lit ''/users'')) = Fulfilled res \<and> \<not> ok res
    \<longrightarrow> users_error (load_users e u)
        = lit ''GET /users failed: '' @ lit (decimal (status res)) @ lit '' '' @ em_dash @ lit '' ''
          @ take 200 (body_text res)
      \<and> js_includes (users_error (load_users e u)) (lit (decimal (status res)))
      \<and> js_includes (users_error (load_users e u)) (take 200 (body_text res)))
   \<and> (respond e (length (users_sent u)) (GET (lit ''/users'')) = Fulfilled res \<and> ok res
      \<and> \<not> js_includes (detected_type e res) (lit ''application/json'')
    \<longrightarrow> users_error (load_users e u)
        = lit ''Unexpected response content-type='' @ detected_type e res @ lit ''. Body: ''
          @ take 200 (body_text res)
      \<and> js_includes (users_error (load_users e u)) (detected_type e res)
      \<and> js_includes (users_error (load_users e u)) (take 200 (body_text res)))
   \<and> (respond e (length (sent s)) (GET (lit ''/api/movies'')) = Fulfilled res \<and> \<not> ok res
    \<longrightarrow> error (load e s) = lit ''GET /api/movies failed: '' @ lit (decimal (status res)))"
proof (intro conjI impI)
  assume a: "respond e (length (users_sent u)) (GET (lit ''/users'')) = Fulfilled res \<and> \<not> ok res"
  then show msg: "users_error (load_users e u)
      = lit ''GET /users failed: '' @ lit (decimal (status res)) @ lit '' '' @ em_dash @ lit '' ''
        @ take 200 (body_text res)"
    by (simp add: load_users_def load_users_catch_def endpoint_def substring0_def)
  have "js_includes ((lit ''GET /users failed: '' @ lit (decimal (status res)) @ lit '' '' @ em_dash @ lit '' '')
      @ take 200 (body_text res)) (take 200 (body_text res))"
    by (rule js_includes_suffix)
  then show "js_includes (users_error (load_users e u)) (take 200 (body_text res))"
    unfolding msg by simp
  have "js_includes (lit ''GET /users failed: '' @ lit (decimal (status res)) @ (lit '' '' @ em_dash @ lit '' ''
      @ take 200 (body_text res))) (lit (decimal (status res)))"
    by (rule js_includes_middle)
  then show "js_includes (users_error (load_users e u)) (lit (decimal (status res)))"
    unfolding msg by simp
next
  assume a: "respond e (length (users_sent u)) (GET (lit ''/users'')) = Fulfilled res \<and> ok res
    \<and> \<not> js_includes (detected_type e res) (lit ''application/json'')"
  then show msg: "users_error (load_users e u)
      = lit ''Unexpected response content-type='' @ detected_type e res @ lit ''. Body: ''
        @ take 200 (body_text res)"
    by (simp add: load_users_def load_users_catch_def endpoint_def substring0_def)
  have "js_includes ((lit ''Unexpected response content-type='' @ detected_type e res @ lit ''. Body: '')
      @ take 200 (body_text res)) (take 200 (body_text res))"
    by (rule js_includes_suffix)
  then show "js_includes (users_error (load_users e u)) (take 200 (body_text res))"
    unfolding msg by simp
  have "js_includes (lit ''Unexpected response content-type='' @ detected_type e res @ ((lit ''. Body: '')
      @ take 200 (body_text res))) (detected_type e res)"
    by (rule js_includes_middle)
  then show "js_includes (users_error (load_users e u)) (detected_type e res)"
    unfolding msg by simp
next
  assume "respond e (length (sent s)) (GET (lit ''/api/movies'')) = Fulfilled res \<and> \<not> ok res"
  then show "error (load e s) = lit ''GET /api/movies failed: '' @ lit (decimal (status res))"
    by (simp add: load_def load_catch_def fetch_def)
qed

theorem load_users_message_witness:
  "users_error (load_users (engine net_all_500) init_users)
     = lit ''GET /users failed: 500 '' @ em_dash @ lit '' <html><body>Server Error</body></html>''
   \<and> users_error (load_users (engine net_users_html) init_users)
     = lit ''Unexpected response content-type=text/html; charset=utf-8. Body: <html><body>Server Error</body></html>''
   \<and> users_error (load_users (engine net_users_euro) init_users)
     = lit ''GET /users failed: 500 '' @ em_dash @ lit '' '' @ replicate 150 0x20AC
       @ replicate 50 0x61
   \<and> error (load (engine net_all_500) init_admin) = lit ''GET /api/movies failed: 500''"
proof -
  let ?e = "engine net_all_500" and ?h = "engine net_users_html"
  let ?u = "engine net_users_euro"
  let ?ures = "\<lparr>status = 500, content_type = Some (lit ''text/plain; charset=UTF-8''),
    body_text = euro_body, body_json = Rejected (lit ''Unexpected token'')\<rparr>"
  have ur: "respond ?u (length (users_sent init_users)) (GET (lit ''/users''))
      = Fulfilled ?ures \<and> \<not> ok ?ures"
    by (simp add: scenario_defs net_users_euro_def)
  have ud: "lit (decimal (status ?ures)) = lit ''500''"
    by (simp add: decimal_500)
  have ub: "take 200 (body_text ?ures) = replicate 150 0x20AC @ replicate 50 0x61"
    by (simp add: euro_body_def)
  from load_users_message [of ?u init_users ?ures] ur
  have fourth: "users_error (load_users ?u init_users)
      = lit ''GET /users failed: '' @ lit (decimal (status ?ures)) @ lit '' ''
        @ em_dash @ lit '' '' @ take 200 (body_text ?ures)"
    by blast
  have r: "respond ?e (length (users_sent init_users)) (GET (lit ''/users''))
      = Fulfilled (html_response 500) \<and> \<not> ok (html_response 500)"
    by (simp add: scenario_defs net_all_500_def)
  have r': "respond ?e (length (sent init_admin)) (GET (lit ''/api/movies''))
      = Fulfilled (html_response 500) \<and> \<not> ok (html_response 500)"
    by (simp add: scenario_defs net_all_500_def)
  have ct: "detected_type ?h (html_response 200) = lit ''text/html; charset=utf-8''"
    by (simp add: detected_type_def scenario_defs toLowerCase_def lower_unit_def lit_Cons
        unit_of_char_def)
  have p: "respond ?h (length (users_sent init_users)) (GET (lit ''/users''))
      = Fulfilled (html_response 200) \<and> ok (html_response 200)
    \<and> \<not> js_includes (detected_type ?h (html_response 200)) (lit ''application/json'')"
    unfolding ct
    by (simp add: scenario_defs net_users_html_def js_includes.simps lit_Cons unit_of_char_def)
  have d: "lit (decimal (status (html_response 500))) = lit ''500''"
    by (simp add: scenario_defs decimal_500)
  have b: "take 200 (body_text (html_response n)) = lit ''<html><body>Server Error</body></html>''"
    for n
    by (simp add: scenario_defs lit_def)
  from load_users_message [of ?e init_users "html_response 500" init_admin] r r'
  have first: "users_error (load_users ?e init_users)
      = lit ''GET /users failed: '' @ lit (decimal (status (html_response 500))) @ lit '' ''
        @ em_dash @ lit '' '' @ take 200 (body_text (html_response 500))"
    and third: "error (load ?e init_admin)
      = lit ''GET /api/movies failed: '' @ lit (decimal (status (html_response 500)))"
    by blast+
  from load_users_message [of ?h init_users "html_response 200"] p
  have second: "users_error (load_users ?h init_users)
      = lit ''Unexpected response content-type='' @ detected_type ?h (html_response 200)
        @ lit ''. Body: '' @ take 200 (body_text (html_response 200))"
    by blast
  from first second third fourth show ?thesis
    unfolding d b ct ud ub by simp
qed

text \<open>
  The claim as written, with the body in the message of every failed list operation, does not
  hold for the movies: the server answers \<open>GET /api/movies\<close> with status 500 and an error
  page, and the message stored holds the status and nothing of the page.
\<close>

theorem load_message_without_body:
  "respond (engine net_all_500) 0 (GET (lit ''/api/movies'')) = Fulfilled (html_response 500)
   \<and> body_text (html_response 500) = lit ''<html><body>Server Error</body></html>''
   \<and> error (load (engine net_all_500) init_admin) = lit ''GET /api/movies failed: 500''
   \<and> \<not> js_includes (error (load (engine net_all_500) init_admin))
         (substring0 200 (body_text (html_response 500)))"
  by (simp add: load_def load_catch_def fetch_def scenario_defs net_all_500_def decimal_500
      substring0_def js_includes.simps lit_Cons unit_of_char_def)

end
